theory Spec2Isabelle
  imports Complex_Main "HOL-Library.Multiset"
begin

section \<open>Data model of vtkVolumeReconstructor\<close>

text \<open>
  The development embeds \<^verbatim>\<open>vtkVolumeReconstructor.cxx\<close>. A finite C++ \<^verbatim>\<open>double\<close> is
  the \<^typ>\<open>real\<close> it stands for (no NaN, no infinities). Comparing two doubles and
  converting an \<^verbatim>\<open>int\<close> to a double are exact. The arithmetic that the source does on
  doubles itself, the subtraction and the division in \<^verbatim>\<open>SetOutputExtentFromFrameList\<close>,
  rounds its result, and the rounding is written out; the matrix primitives of the
  external library are modelled without rounding. A C++ \<^verbatim>\<open>int\<close> is an \<^typ>\<open>int\<close>, and
  the one place where a value is narrowed to 32 bits (the conversion
  \<^verbatim>\<open>int( double )\<close>) writes the range check out. A \<^verbatim>\<open>double[16]\<close> holding
  a 4x4 matrix is a list of 16 reals in row-major order, as \<^verbatim>\<open>vtkMatrix4x4\<close> stores it.
\<close>

datatype PlusStatus = PLUS_FAIL | PLUS_SUCCESS

record 'a vtkImageData =
  Extent :: "int list"
  Spacing :: "real list"
  Origin :: "real list"
  NumberOfScalarComponents :: nat
  Scalars :: "'a list list"

text \<open>
  Modelled from the spec: the class \<^verbatim>\<open>TrackedFrame\<close> is not part of the sources at hand.
  A tracked frame is a 2D pixel grid and an optional pose; \<^verbatim>\<open>GetDefaultFrameTransform\<close>
  fails exactly when the pose is absent, and \<^verbatim>\<open>ImageData.GetVtkImageNonFlipped()\<close> hands
  out the pixel grid.
\<close>

record 'a TrackedFrame =
  DefaultFrameTransform :: "real list option"
  ImageData :: "'a vtkImageData"

text \<open>
  The fields of \<^verbatim>\<open>vtkVolumeReconstructorFilter\<close> that the reconstructor reads and writes
  through \<^verbatim>\<open>GetOutputSpacing\<close>, \<^verbatim>\<open>SetOutputExtent\<close>, \<^verbatim>\<open>SetOutputOrigin\<close> and
  \<^verbatim>\<open>GetReconstructedVolume\<close>.
\<close>

record 'a vtkVolumeReconstructorFilter =
  OutputSpacing :: "real list"
  OutputExtent :: "int list"
  OutputOrigin :: "real list"
  ReconstructedVolume :: "'a vtkImageData"

record 'a vtkVolumeReconstructor =
  Reconstructor :: "'a vtkVolumeReconstructorFilter"
  ImageToToolTransform :: "real list"

section \<open>Matrix primitives\<close>

definition Element :: "real list \<Rightarrow> nat \<Rightarrow> nat \<Rightarrow> real" where
  "Element m i j = m ! (4 * i + j)"

text \<open>
  Modelled from the spec: the 4x4 composition \<^verbatim>\<open>vtkMatrix4x4::Multiply4x4\<close> and the point
  transform \<^verbatim>\<open>vtkMatrix4x4::MultiplyPoint\<close> are primitives of the external matrix library.
  Entry \<open>(i, k)\<close> of the product is the row \<open>i\<close> of the left factor times the column
  \<open>k\<close> of the right factor; a point is a column of four homogeneous coordinates.
\<close>

definition Multiply4x4 :: "real list \<Rightarrow> real list \<Rightarrow> real list" where
  "Multiply4x4 a b =
     map (\<lambda>n. Element a (n div 4) 0 * Element b 0 (n mod 4)
             + Element a (n div 4) 1 * Element b 1 (n mod 4)
             + Element a (n div 4) 2 * Element b 2 (n mod 4)
             + Element a (n div 4) 3 * Element b 3 (n mod 4)) [0..<16]"

definition MultiplyPoint :: "real list \<Rightarrow> real list \<Rightarrow> real list" where
  "MultiplyPoint m p =
     map (\<lambda>i. Element m i 0 * p ! 0 + Element m i 1 * p ! 1
             + Element m i 2 * p ! 2 + Element m i 3 * p ! 3) [0..<4]"

definition DeepCopy :: "real list \<Rightarrow> real list" where
  "DeepCopy elements = map (\<lambda>n. elements ! n) [0..<16]"

definition Identity4x4 :: "real list" where
  "Identity4x4 = [1, 0, 0, 0,  0, 1, 0, 0,  0, 0, 1, 0,  0, 0, 0, 1]"

section \<open>Transform composition\<close>

definition GetImageToReferenceTransformMatrix ::
  "'a vtkVolumeReconstructor \<Rightarrow> real list \<Rightarrow> real list" where
  "GetImageToReferenceTransformMatrix self toolToReferenceTransformMatrix =
     Multiply4x4 toolToReferenceTransformMatrix (ImageToToolTransform self)"

text \<open>
  The overload taking a frame. The out-parameter \<open>imageToReferenceTransformMatrix\<close> is
  passed in and returned: it is left as it was when the frame has no pose.
\<close>

definition GetImageToReferenceTransformMatrix_frame ::
  "'a vtkVolumeReconstructor \<Rightarrow> 'a TrackedFrame \<Rightarrow> real list \<Rightarrow> PlusStatus \<times> real list" where
  "GetImageToReferenceTransformMatrix_frame self frame imageToReferenceTransformMatrix =
     (case DefaultFrameTransform frame of
        None \<Rightarrow> (PLUS_FAIL, imageToReferenceTransformMatrix)
      | Some defaultTransform \<Rightarrow>
          (let toolToReferenceTransformMatrix = DeepCopy defaultTransform
           in (PLUS_SUCCESS, GetImageToReferenceTransformMatrix self toolToReferenceTransformMatrix)))"

section \<open>Extent estimation\<close>

text \<open>
  The body of the loop over the three axes in \<^verbatim>\<open>AddImageToExtent\<close>: the two tests
  run one after the other on the array \<open>extent_Ref\<close>, which holds
  \<open>[xmin, xmax, ymin, ymax, zmin, zmax]\<close>.
\<close>

definition expand_axis :: "real list \<Rightarrow> real list \<Rightarrow> nat \<Rightarrow> real list" where
  "expand_axis corner_Ref extent_Ref axis =
     (let e1 = (if corner_Ref ! axis < extent_Ref ! (axis * 2)
                then extent_Ref[axis * 2 := corner_Ref ! axis] else extent_Ref);
          e2 = (if corner_Ref ! axis > e1 ! (axis * 2 + 1)
                then e1[axis * 2 + 1 := corner_Ref ! axis] else e1)
      in e2)"

text \<open>The body of the loop over the corners: transform one corner, then visit the axes.\<close>

definition expand_corner :: "real list \<Rightarrow> real list \<Rightarrow> real list \<Rightarrow> real list" where
  "expand_corner mImageToReference extent_Ref corner_ImagePix =
     (let corner_Ref = MultiplyPoint mImageToReference corner_ImagePix
      in foldl (expand_axis corner_Ref) extent_Ref [0..<3])"

definition corners_ImagePix :: "'a vtkImageData \<Rightarrow> real list list" where
  "corners_ImagePix img =
     (let frameExtent = Extent img;
          c0 = [real_of_int (frameExtent ! 0), real_of_int (frameExtent ! 2), 0, 1];
          c1 = [real_of_int (frameExtent ! 0), real_of_int (frameExtent ! 3), 0, 1];
          c2 = [real_of_int (frameExtent ! 1), real_of_int (frameExtent ! 2), 0, 1];
          c3 = [real_of_int (frameExtent ! 1), real_of_int (frameExtent ! 3), 0, 1]
      in [c0, c1, c2, c3])"

definition AddImageToExtent :: "'a vtkImageData \<Rightarrow> real list \<Rightarrow> real list \<Rightarrow> real list" where
  "AddImageToExtent img mImageToReference extent_Ref =
     foldl (expand_corner mImageToReference) extent_Ref (corners_ImagePix img)"

text \<open>
  The loop over the frames in \<^verbatim>\<open>SetOutputExtentFromFrameList\<close>. Each round starts from
  a fresh identity matrix; a frame whose transform cannot be resolved is logged and the
  loop goes on with the next one (\<^verbatim>\<open>continue\<close>).
\<close>

fun extent_Ref_loop ::
  "'a vtkVolumeReconstructor \<Rightarrow> 'a TrackedFrame list \<Rightarrow> real list \<Rightarrow> real list" where
  "extent_Ref_loop self [] extent_Ref = extent_Ref"
| "extent_Ref_loop self (frame # rest) extent_Ref =
     (case GetImageToReferenceTransformMatrix_frame self frame Identity4x4 of
        (status, imageToReferenceTransformMatrix) \<Rightarrow>
          if status \<noteq> PLUS_SUCCESS then extent_Ref_loop self rest extent_Ref
          else (let frameImage = ImageData frame
                in extent_Ref_loop self rest
                     (AddImageToExtent frameImage imageToReferenceTransformMatrix extent_Ref)))"

text \<open>
  The constants \<^verbatim>\<open>VTK_DOUBLE_MAX\<close> and \<^verbatim>\<open>VTK_DOUBLE_MIN\<close> come from a header of the
  external library, so they are parameters here.
\<close>

definition extent_Ref_of_frames ::
  "real \<Rightarrow> real \<Rightarrow> 'a vtkVolumeReconstructor \<Rightarrow> 'a TrackedFrame list \<Rightarrow> real list" where
  "extent_Ref_of_frames VTK_DOUBLE_MAX VTK_DOUBLE_MIN self trackedFrameList =
     extent_Ref_loop self trackedFrameList
       [VTK_DOUBLE_MAX, VTK_DOUBLE_MIN,
        VTK_DOUBLE_MAX, VTK_DOUBLE_MIN,
        VTK_DOUBLE_MAX, VTK_DOUBLE_MIN]"

text \<open>
  The conversion \<^verbatim>\<open>int( x )\<close> of a double drops the fractional part (it rounds towards
  zero); its behaviour is undefined when the result does not fit a 32-bit \<^verbatim>\<open>int\<close>, which
  is \<open>None\<close> here.
\<close>

definition int_of_double :: "real \<Rightarrow> int option" where
  "int_of_double x =
     (let t = (if 0 \<le> x then \<lfloor>x\<rfloor> else \<lceil>x\<rceil>)
      in if - 2147483648 \<le> t \<and> t \<le> 2147483647 then Some t else None)"

text \<open>
  Arithmetic on doubles gives the exact result rounded to a double. The rounding is the
  parameter \<open>rnd\<close>: \<open>rnd x\<close> is the double that the real \<open>x\<close> is rounded to, and
  \<open>None\<close> when \<open>x\<close> lies beyond the largest double, where the operation gives an
  infinity. A division by zero gives an infinity or a NaN.
\<close>

definition double_sub :: "(real \<Rightarrow> real option) \<Rightarrow> real \<Rightarrow> real \<Rightarrow> real option" where
  "double_sub rnd a b = rnd (a - b)"

definition double_div :: "(real \<Rightarrow> real option) \<Rightarrow> real \<Rightarrow> real \<Rightarrow> real option" where
  "double_div rnd a b = (if b = 0 then None else rnd (a / b))"

text \<open>
  The double \<^verbatim>\<open>( max - min ) / spacing\<close>: the difference is rounded, then the quotient.
  An infinite difference gives no finite quotient.
\<close>

definition double_quotient :: "(real \<Rightarrow> real option) \<Rightarrow> real \<Rightarrow> real \<Rightarrow> real \<Rightarrow> real option" where
  "double_quotient rnd hi lo spacing =
     (case double_sub rnd hi lo of
        None \<Rightarrow> None
      | Some width \<Rightarrow> double_div rnd width spacing)"

text \<open>
  One upper index bound: \<^verbatim>\<open>int( ( max - min ) / spacing )\<close>. No \<^verbatim>\<open>int\<close> represents an
  infinity or a NaN.
\<close>

definition extent_bound :: "(real \<Rightarrow> real option) \<Rightarrow> real \<Rightarrow> real \<Rightarrow> real \<Rightarrow> int option" where
  "extent_bound rnd hi lo spacing =
     (case double_quotient rnd hi lo spacing of
        None \<Rightarrow> None
      | Some ratio \<Rightarrow> int_of_double ratio)"

definition SetOutputExtent ::
  "int list \<Rightarrow> 'a vtkVolumeReconstructorFilter \<Rightarrow> 'a vtkVolumeReconstructorFilter" where
  "SetOutputExtent outputExtent r = r\<lparr>OutputExtent := outputExtent\<rparr>"

definition SetOutputOrigin ::
  "real \<Rightarrow> real \<Rightarrow> real \<Rightarrow> 'a vtkVolumeReconstructorFilter \<Rightarrow> 'a vtkVolumeReconstructorFilter" where
  "SetOutputOrigin x y z r = r\<lparr>OutputOrigin := [x, y, z]\<rparr>"

text \<open>
  The first part of \<^verbatim>\<open>SetOutputExtentFromFrameList\<close>, up to the calls of
  \<^verbatim>\<open>SetOutputExtent\<close> and \<^verbatim>\<open>SetOutputOrigin\<close>: the filter with the extent and the
  origin it is asked for, or \<open>None\<close> when one of the three conversions is undefined.
\<close>

definition requested_output ::
  "(real \<Rightarrow> real option) \<Rightarrow> real \<Rightarrow> real \<Rightarrow> 'a vtkVolumeReconstructor \<Rightarrow> 'a TrackedFrame list \<Rightarrow>
   'a vtkVolumeReconstructorFilter option" where
  "requested_output rnd VTK_DOUBLE_MAX VTK_DOUBLE_MIN self trackedFrameList =
     (let extent_Ref = extent_Ref_of_frames VTK_DOUBLE_MAX VTK_DOUBLE_MIN self trackedFrameList;
          outputSpacing = OutputSpacing (Reconstructor self)
      in case (extent_bound rnd (extent_Ref ! 1) (extent_Ref ! 0) (outputSpacing ! 0),
               extent_bound rnd (extent_Ref ! 3) (extent_Ref ! 2) (outputSpacing ! 1),
               extent_bound rnd (extent_Ref ! 5) (extent_Ref ! 4) (outputSpacing ! 2)) of
           (Some e1, Some e3, Some e5) \<Rightarrow>
             (let outputExtent = [0, 0, 0, 0, 0, 0][1 := e1, 3 := e3, 5 := e5]
              in Some (SetOutputOrigin (extent_Ref ! 0) (extent_Ref ! 2) (extent_Ref ! 4)
                         (SetOutputExtent outputExtent (Reconstructor self))))
         | _ \<Rightarrow> None)"

text \<open>
  What a call may come to: it returns a status, an exception leaves it, or its behaviour
  is undefined. The state travels with the first two.
\<close>

datatype exn = bad_alloc | other_exception

datatype 's outcome = Returned PlusStatus 's | Threw exn 's | UndefinedBehaviour

text \<open>
  The second part, the \<^verbatim>\<open>try\<close> block around \<^verbatim>\<open>ResetOutput\<close>. The allocator of the
  filter is a parameter: applied to the filter it gives either a status or the exception
  it throws, and the filter it leaves behind. Only \<^verbatim>\<open>bad_alloc\<close> is caught.
\<close>

definition try_ResetOutput ::
  "('a vtkVolumeReconstructorFilter \<Rightarrow> (exn + PlusStatus) \<times> 'a vtkVolumeReconstructorFilter) \<Rightarrow>
   'a vtkVolumeReconstructor \<Rightarrow> 'a vtkVolumeReconstructorFilter \<Rightarrow> 'a vtkVolumeReconstructor outcome" where
  "try_ResetOutput ResetOutput self r =
     (case ResetOutput r of
        (Inr status, r') \<Rightarrow>
          if status \<noteq> PLUS_SUCCESS then Returned PLUS_FAIL (self\<lparr>Reconstructor := r'\<rparr>)
          else Returned PLUS_SUCCESS (self\<lparr>Reconstructor := r'\<rparr>)
      | (Inl bad_alloc, r') \<Rightarrow> Returned PLUS_FAIL (self\<lparr>Reconstructor := r'\<rparr>)
      | (Inl e, r') \<Rightarrow> Threw e (self\<lparr>Reconstructor := r'\<rparr>))"

definition SetOutputExtentFromFrameList ::
  "('a vtkVolumeReconstructorFilter \<Rightarrow> (exn + PlusStatus) \<times> 'a vtkVolumeReconstructorFilter) \<Rightarrow>
   (real \<Rightarrow> real option) \<Rightarrow> real \<Rightarrow> real \<Rightarrow> 'a vtkVolumeReconstructor \<Rightarrow> 'a TrackedFrame list \<Rightarrow>
   'a vtkVolumeReconstructor outcome" where
  "SetOutputExtentFromFrameList ResetOutput rnd VTK_DOUBLE_MAX VTK_DOUBLE_MIN self trackedFrameList =
     (case requested_output rnd VTK_DOUBLE_MAX VTK_DOUBLE_MIN self trackedFrameList of
        None \<Rightarrow> UndefinedBehaviour
      | Some r \<Rightarrow> try_ResetOutput ResetOutput self r)"

section \<open>Frame insertion\<close>

text \<open>
  \<^verbatim>\<open>InsertSlice\<close> of the filter is a parameter: from the frame image, its transform and
  the filter it gives a status and the filter with the slice pasted in.
\<close>

definition AddTrackedFrame ::
  "('a vtkImageData \<Rightarrow> real list \<Rightarrow> 'a vtkVolumeReconstructorFilter \<Rightarrow>
      PlusStatus \<times> 'a vtkVolumeReconstructorFilter) \<Rightarrow>
   'a vtkVolumeReconstructor \<Rightarrow> 'a TrackedFrame \<Rightarrow> PlusStatus \<times> 'a vtkVolumeReconstructor" where
  "AddTrackedFrame InsertSlice self frame =
     (case GetImageToReferenceTransformMatrix_frame self frame Identity4x4 of
        (status, imageToReferenceTransformMatrix) \<Rightarrow>
          if status \<noteq> PLUS_SUCCESS then (PLUS_FAIL, self)
          else (let frameImage = ImageData frame
                in case InsertSlice frameImage imageToReferenceTransformMatrix (Reconstructor self) of
                     (inserted, r') \<Rightarrow> (inserted, self\<lparr>Reconstructor := r'\<rparr>)))"

section \<open>Output extraction\<close>

text \<open>
  Modelled from the spec: \<^verbatim>\<open>vtkImageExtractComponents\<close> belongs to the external imaging
  library. Its output has the geometry of the input and, for every voxel, the listed
  components of the input voxel in the listed order; \<^verbatim>\<open>SetComponents(0)\<close> lists
  component 0 alone.
\<close>

definition ExtractComponents :: "nat list \<Rightarrow> 'a vtkImageData \<Rightarrow> 'a vtkImageData" where
  "ExtractComponents components input =
     input\<lparr>NumberOfScalarComponents := length components,
           Scalars := map (\<lambda>voxel. map (\<lambda>c. voxel ! c) components) (Scalars input)\<rparr>"

text \<open>
  The out-parameter \<open>reconstructedVolume\<close> is overwritten by a deep copy of the extracted
  image, whatever it held before.
\<close>

definition GetReconstructedVolume ::
  "'a vtkVolumeReconstructor \<Rightarrow> 'a vtkImageData \<Rightarrow> PlusStatus \<times> 'a vtkImageData" where
  "GetReconstructedVolume self reconstructedVolume =
     (let extract = ExtractComponents [0] (ReconstructedVolume (Reconstructor self))
      in (PLUS_SUCCESS, extract))"

section \<open>Configuration\<close>

text \<open>
  An element of the configuration tree: its name, its attributes in document order and
  its nested elements in document order. The lookups are those of the external
  \<^verbatim>\<open>vtkXMLDataElement\<close>: each returns the first nested element that matches, or null.
\<close>

datatype vtkXMLDataElement =
  XMLDataElement (GetName: string) (Attributes: "(string \<times> string) list")
    (NestedElements: "vtkXMLDataElement list")

definition GetAttribute :: "vtkXMLDataElement \<Rightarrow> string \<Rightarrow> string option" where
  "GetAttribute element name = map_of (Attributes element) name"

definition FindNestedElementWithName :: "vtkXMLDataElement \<Rightarrow> string \<Rightarrow> vtkXMLDataElement option" where
  "FindNestedElementWithName element name =
     find (\<lambda>nested. GetName nested = name) (NestedElements element)"

definition FindNestedElementWithNameAndAttribute ::
  "vtkXMLDataElement \<Rightarrow> string \<Rightarrow> string \<Rightarrow> string \<Rightarrow> vtkXMLDataElement option" where
  "FindNestedElementWithNameAndAttribute element name att_name att_value =
     find (\<lambda>nested. GetName nested = name \<and> GetAttribute nested att_name = Some att_value)
       (NestedElements element)"

text \<open>
  \<^verbatim>\<open>GetVectorAttribute(name, length, data)\<close> returns how many values it has stored
  in \<open>data\<close>: none when the attribute is absent, otherwise as many as the text of the
  attribute yields, at most \<open>length\<close>. Reading numbers out of a text is left to the
  parameter \<open>parse\<close>. The entries of \<open>data\<close> beyond the values read keep what they
  held.
\<close>

definition GetVectorAttribute ::
  "(string \<Rightarrow> real list) \<Rightarrow> vtkXMLDataElement \<Rightarrow> string \<Rightarrow> nat \<Rightarrow> real list \<Rightarrow> nat \<times> real list" where
  "GetVectorAttribute parse element name len data =
     (case GetAttribute element name of
        None \<Rightarrow> (0, data)
      | Some str \<Rightarrow>
          (let vals = take len (parse str)
           in (length vals, vals @ drop (length vals) data)))"

text \<open>
  \<^verbatim>\<open>ReadConfiguration\<close>. Its parameters stand for what the sources at hand do not hold:
  the filter's own \<^verbatim>\<open>ReadConfiguration\<close> (its status is not looked at), the text that
  \<^verbatim>\<open>ConvertToolTypeToString\<close> gives for \<^verbatim>\<open>TRACKER_TOOL_PROBE\<close>, the number parser, and
  the content of the local array \<open>aImageToTool\<close> before it is filled.
\<close>

definition ReadConfiguration ::
  "(vtkXMLDataElement \<Rightarrow> 'a vtkVolumeReconstructorFilter \<Rightarrow> 'a vtkVolumeReconstructorFilter) \<Rightarrow>
   string \<Rightarrow> (string \<Rightarrow> real list) \<Rightarrow> real list \<Rightarrow>
   'a vtkVolumeReconstructor \<Rightarrow> vtkXMLDataElement \<Rightarrow> PlusStatus \<times> 'a vtkVolumeReconstructor" where
  "ReadConfiguration Reconstructor_ReadConfiguration toolType parse uninitialised self config =
     (let self1 = self\<lparr>Reconstructor := Reconstructor_ReadConfiguration config (Reconstructor self)\<rparr>
      in case FindNestedElementWithName config ''USDataCollection'' of
           None \<Rightarrow> (PLUS_FAIL, self1)
         | Some dataCollectionConfig \<Rightarrow>
        (case FindNestedElementWithName dataCollectionConfig ''Tracker'' of
           None \<Rightarrow> (PLUS_FAIL, self1)
         | Some trackerDefinition \<Rightarrow>
        (case FindNestedElementWithNameAndAttribute trackerDefinition ''Tool'' ''Type'' toolType of
           None \<Rightarrow> (PLUS_FAIL, self1)
         | Some probeDefinition \<Rightarrow>
        (case FindNestedElementWithName probeDefinition ''Calibration'' of
           None \<Rightarrow> (PLUS_FAIL, self1)
         | Some calibration \<Rightarrow>
        (case GetVectorAttribute parse calibration ''MatrixValue'' 16 uninitialised of
           (n, aImageToTool) \<Rightarrow>
             if n = 0 then (PLUS_FAIL, self1)
             else (PLUS_SUCCESS, self1\<lparr>ImageToToolTransform := DeepCopy aImageToTool\<rparr>))))))"

section \<open>The bounding box, as the specification words it\<close>

text \<open>
  The four corners of a frame image in pixel coordinates, at \<open>z = 0\<close>, in homogeneous
  form: \<open>(xmin, ymin)\<close>, \<open>(xmin, ymax)\<close>, \<open>(xmax, ymin)\<close>, \<open>(xmax, ymax)\<close>.
\<close>

definition four_corners :: "'a vtkImageData \<Rightarrow> real list list" where
  "four_corners img =
     (let xmin = real_of_int (Extent img ! 0); xmax = real_of_int (Extent img ! 1);
          ymin = real_of_int (Extent img ! 2); ymax = real_of_int (Extent img ! 3)
      in [[xmin, ymin, 0, 1], [xmin, ymax, 0, 1], [xmax, ymin, 0, 1], [xmax, ymax, 0, 1]])"

text \<open>
  The corners of one frame in reference coordinates: none for a frame without a pose,
  otherwise the four corners sent through \<open>ToolToReference * ImageToTool\<close>.
\<close>

definition frame_corners_Ref :: "'a vtkVolumeReconstructor \<Rightarrow> 'a TrackedFrame \<Rightarrow> real list list" where
  "frame_corners_Ref self frame =
     (case DefaultFrameTransform frame of
        None \<Rightarrow> []
      | Some toolToReference \<Rightarrow>
          map (MultiplyPoint (Multiply4x4 toolToReference (ImageToToolTransform self)))
            (four_corners (ImageData frame)))"

definition corners_Ref :: "'a vtkVolumeReconstructor \<Rightarrow> 'a TrackedFrame list \<Rightarrow> real list list" where
  "corners_Ref self frames = concat (map (frame_corners_Ref self) frames)"

definition coordinates :: "nat \<Rightarrow> real list list \<Rightarrow> real set" where
  "coordinates axis points = (\<lambda>p. p ! axis) ` set points"

text \<open>Taking one point into a box \<open>[xmin, xmax, ymin, ymax, zmin, zmax]\<close>.\<close>

definition include_point :: "real list \<Rightarrow> real list \<Rightarrow> real list" where
  "include_point extent_Ref p =
     [min (p ! 0) (extent_Ref ! 0), max (p ! 0) (extent_Ref ! 1),
      min (p ! 1) (extent_Ref ! 2), max (p ! 1) (extent_Ref ! 3),
      min (p ! 2) (extent_Ref ! 4), max (p ! 2) (extent_Ref ! 5)]"

text \<open>
  The \<^verbatim>\<open>Calibration\<close> element that the chain of lookups reaches: the first
  \<^verbatim>\<open>USDataCollection\<close> under the root, the first \<^verbatim>\<open>Tracker\<close> under it, the first
  \<^verbatim>\<open>Tool\<close> of the probe type under that, the first \<^verbatim>\<open>Calibration\<close> under the tool.
  It is \<open>None\<close> as soon as one of the four is missing.
\<close>

definition calibration_of :: "string \<Rightarrow> vtkXMLDataElement \<Rightarrow> vtkXMLDataElement option" where
  "calibration_of toolType config =
     Option.bind (FindNestedElementWithName config ''USDataCollection'') (\<lambda>dataCollectionConfig.
     Option.bind (FindNestedElementWithName dataCollectionConfig ''Tracker'') (\<lambda>trackerDefinition.
     Option.bind (FindNestedElementWithNameAndAttribute trackerDefinition ''Tool'' ''Type'' toolType)
       (\<lambda>probeDefinition. FindNestedElementWithName probeDefinition ''Calibration'')))"

section \<open>Example data\<close>

definition example_image :: "nat vtkImageData" where
  "example_image =
     \<lparr>Extent = [0, 10, 0, 20, 0, 0], Spacing = [1, 1, 1], Origin = [0, 0, 0],
      NumberOfScalarComponents = 1, Scalars = []\<rparr>"

definition example_frame :: "nat TrackedFrame" where
  "example_frame = \<lparr>DefaultFrameTransform = Some Identity4x4, ImageData = example_image\<rparr>"

definition lost_frame :: "nat TrackedFrame" where
  "lost_frame = \<lparr>DefaultFrameTransform = None, ImageData = example_image\<rparr>"

definition example_volume :: "nat vtkImageData" where
  "example_volume =
     \<lparr>Extent = [0, 1, 0, 0, 0, 0], Spacing = [1, 1, 1], Origin = [0, 0, 0],
      NumberOfScalarComponents = 2, Scalars = [[7, 1], [0, 0]]\<rparr>"

definition example_filter :: "nat vtkVolumeReconstructorFilter" where
  "example_filter =
     \<lparr>OutputSpacing = [1, 1, 1], OutputExtent = [0, 0, 0, 0, 0, 0], OutputOrigin = [0, 0, 0],
      ReconstructedVolume = example_volume\<rparr>"

definition example_reconstructor :: "nat vtkVolumeReconstructor" where
  "example_reconstructor = \<lparr>Reconstructor = example_filter, ImageToToolTransform = Identity4x4\<rparr>"

text \<open>A pose that shifts by \<open>(1, 2, 3)\<close> and a calibration that doubles every coordinate.\<close>

definition example_pose :: "real list" where
  "example_pose = [1, 0, 0, 1,  0, 1, 0, 2,  0, 0, 1, 3,  0, 0, 0, 1]"

definition example_calibration :: "real list" where
  "example_calibration = [2, 0, 0, 0,  0, 2, 0, 0,  0, 0, 2, 0,  0, 0, 0, 1]"

definition example_config :: "string \<Rightarrow> vtkXMLDataElement" where
  "example_config matrixValue =
     XMLDataElement ''PlusConfiguration'' []
       [XMLDataElement ''USDataCollection'' []
          [XMLDataElement ''Tracker'' []
             [XMLDataElement ''Tool'' [(''Type'', ''Probe'')]
                [XMLDataElement ''Calibration'' [(''MatrixValue'', matrixValue)] []]]]]"

definition config_without_tracker :: vtkXMLDataElement where
  "config_without_tracker =
     XMLDataElement ''PlusConfiguration'' [] [XMLDataElement ''USDataCollection'' [] []]"

text \<open>
  Two stand-ins for the allocator of the filter: one that always has the memory, and
  one that throws \<^verbatim>\<open>bad_alloc\<close> when the extent holds more voxels than a capacity.
\<close>

definition ResetOutput_unlimited ::
  "nat vtkVolumeReconstructorFilter \<Rightarrow> (exn + PlusStatus) \<times> nat vtkVolumeReconstructorFilter" where
  "ResetOutput_unlimited r = (Inr PLUS_SUCCESS, r)"

definition ResetOutput_limited ::
  "int \<Rightarrow> nat vtkVolumeReconstructorFilter \<Rightarrow> (exn + PlusStatus) \<times> nat vtkVolumeReconstructorFilter" where
  "ResetOutput_limited capacity r =
     (if capacity < (OutputExtent r ! 1 + 1) * (OutputExtent r ! 3 + 1) * (OutputExtent r ! 5 + 1)
      then (Inl bad_alloc, r) else (Inr PLUS_SUCCESS, r))"

text \<open>The example reconstructor with another output spacing.\<close>

definition example_reconstructor_spaced :: "real \<Rightarrow> nat vtkVolumeReconstructor" where
  "example_reconstructor_spaced spacing =
     example_reconstructor\<lparr>Reconstructor := example_filter\<lparr>OutputSpacing := [spacing, spacing, spacing]\<rparr>\<rparr>"

text \<open>
  The doubles that the literals \<^verbatim>\<open>1.0e+299\<close> and \<^verbatim>\<open>-1.0e+299\<close> denote, which the
  header of the external library gives to \<^verbatim>\<open>VTK_DOUBLE_MAX\<close> and \<^verbatim>\<open>VTK_DOUBLE_MIN\<close>.
\<close>

definition VTK_DOUBLE_MAX_value :: real where
  "VTK_DOUBLE_MAX_value = 5379898476197808 * 2 ^ 941"

definition VTK_DOUBLE_MIN_value :: real where
  "VTK_DOUBLE_MIN_value = - (5379898476197808 * 2 ^ 941)"

text \<open>
  The rounding on the reals that are doubles already. In the examples every difference
  and every quotient is a double (a small integer, or a sentinel times a power of two),
  so the operations round nothing away there.
\<close>

definition exact_result :: "real \<Rightarrow> real option" where
  "exact_result x = Some x"

text \<open>A stand-in for the number parser, on the two attribute texts of the examples.\<close>

definition example_parse :: "string \<Rightarrow> real list" where
  "example_parse str =
     (if str = ''1 2 3'' then [1, 2, 3]
      else if str = ''2 0 0 0 0 2 0 0 0 0 2 0 0 0 0 1'' then example_calibration
      else [])"

section \<open>Auxiliary facts\<close>

lemma upt3: "[0..<3] = [0, 1, 2]"
  by (simp add: upt_rec)

lemma length6E:
  assumes "length (e::'x list) = 6"
  obtains a b c d f g where "e = [a, b, c, d, f, g]"
proof -
  from assms obtain a e1 where 1: "e = a # e1" "length e1 = 5" by (cases e) auto
  then obtain b e2 where 2: "e1 = b # e2" "length e2 = 4" by (cases e1) auto
  then obtain c e3 where 3: "e2 = c # e3" "length e3 = 3" by (cases e2) auto
  then obtain d e4 where 4: "e3 = d # e4" "length e4 = 2" by (cases e3) auto
  then obtain f e5 where 5: "e4 = f # e5" "length e5 = 1" by (cases e4) auto
  then obtain g where 6: "e5 = [g]" by (cases e5) auto
  from 1 2 3 4 5 6 that show thesis by blast
qed

lemma expand_axes:
  assumes "length e = 6"
  shows "foldl (expand_axis p) e [0..<3] = include_point e p"
proof -
  from assms obtain a b c d f g where e: "e = [a, b, c, d, f, g]" by (rule length6E)
  show ?thesis
    unfolding e upt3 by (simp add: expand_axis_def include_point_def Let_def min_def max_def)
qed

lemma length_include_point [simp]: "length (include_point e p) = 6"
  by (simp add: include_point_def)

lemma expand_corner_eq:
  "length e = 6 \<Longrightarrow> expand_corner m e c = include_point e (MultiplyPoint m c)"
  by (simp add: expand_corner_def expand_axes)

lemma foldl_expand_corner:
  "length e = 6 \<Longrightarrow>
   foldl (expand_corner m) e cs = foldl include_point e (map (MultiplyPoint m) cs)"
  by (induction cs arbitrary: e) (simp_all add: expand_corner_eq)

lemma length_foldl_include_point [simp]:
  "length e = 6 \<Longrightarrow> length (foldl include_point e ps) = 6"
  by (induction ps arbitrary: e) simp_all

lemma corners_ImagePix_eq: "corners_ImagePix img = four_corners img"
  by (simp add: corners_ImagePix_def four_corners_def Let_def)

lemma AddImageToExtent_eq:
  "length e = 6 \<Longrightarrow>
   AddImageToExtent img m e = foldl include_point e (map (MultiplyPoint m) (four_corners img))"
  by (simp add: AddImageToExtent_def foldl_expand_corner corners_ImagePix_eq)

lemma Element_DeepCopy: "i < 4 \<Longrightarrow> j < 4 \<Longrightarrow> Element (DeepCopy t) i j = Element t i j"
  by (simp add: Element_def DeepCopy_def)

lemma Multiply4x4_DeepCopy: "Multiply4x4 (DeepCopy t) c = Multiply4x4 t c"
  unfolding Multiply4x4_def
  by (rule map_cong) (simp_all add: Element_DeepCopy)

lemma frame_transform_None:
  "DefaultFrameTransform frame = None \<Longrightarrow>
   GetImageToReferenceTransformMatrix_frame self frame out = (PLUS_FAIL, out)"
  by (simp add: GetImageToReferenceTransformMatrix_frame_def)

lemma frame_transform_Some:
  "DefaultFrameTransform frame = Some t \<Longrightarrow>
   GetImageToReferenceTransformMatrix_frame self frame out =
     (PLUS_SUCCESS, Multiply4x4 t (ImageToToolTransform self))"
  by (simp add: GetImageToReferenceTransformMatrix_frame_def
      GetImageToReferenceTransformMatrix_def Multiply4x4_DeepCopy)

lemma extent_Ref_loop_eq:
  "length e = 6 \<Longrightarrow> extent_Ref_loop self frames e = foldl include_point e (corners_Ref self frames)"
proof (induction frames arbitrary: e)
  case Nil
  then show ?case by (simp add: corners_Ref_def)
next
  case (Cons frame rest)
  show ?case
  proof (cases "DefaultFrameTransform frame")
    case None
    with Cons show ?thesis
      by (simp add: frame_transform_None corners_Ref_def frame_corners_Ref_def)
  next
    case (Some t)
    with Cons show ?thesis
      by (simp add: frame_transform_Some corners_Ref_def frame_corners_Ref_def
          AddImageToExtent_eq)
  qed
qed

lemma finite_coordinates [simp]: "finite (coordinates k ps)"
  by (simp add: coordinates_def)

lemma coordinates_Cons: "coordinates k (p # ps) = insert (p ! k) (coordinates k ps)"
  by (simp add: coordinates_def)

lemma Min_insert_min:
  "finite S \<Longrightarrow> Min (insert (min x y) S) = Min (insert y (insert (x::real) S))"
  by (cases "S = {}") (simp_all add: min.commute min.left_commute min.assoc)

lemma Max_insert_max:
  "finite S \<Longrightarrow> Max (insert (max x y) S) = Max (insert y (insert (x::real) S))"
  by (cases "S = {}") (simp_all add: max.commute max.left_commute max.assoc)

lemma foldl_include_point_Min_Max:
  "length e = 6 \<Longrightarrow>
   foldl include_point e ps =
     [Min (insert (e ! 0) (coordinates 0 ps)), Max (insert (e ! 1) (coordinates 0 ps)),
      Min (insert (e ! 2) (coordinates 1 ps)), Max (insert (e ! 3) (coordinates 1 ps)),
      Min (insert (e ! 4) (coordinates 2 ps)), Max (insert (e ! 5) (coordinates 2 ps))]"
proof (induction ps arbitrary: e)
  case Nil
  then obtain a b c d f g where "e = [a, b, c, d, f, g]" by (rule length6E)
  then show ?case by (simp add: coordinates_def)
next
  case (Cons p ps)
  have "foldl include_point e (p # ps) = foldl include_point (include_point e p) ps" by simp
  also have "\<dots> = [Min (insert (include_point e p ! 0) (coordinates 0 ps)),
      Max (insert (include_point e p ! 1) (coordinates 0 ps)),
      Min (insert (include_point e p ! 2) (coordinates 1 ps)),
      Max (insert (include_point e p ! 3) (coordinates 1 ps)),
      Min (insert (include_point e p ! 4) (coordinates 2 ps)),
      Max (insert (include_point e p ! 5) (coordinates 2 ps))]"
    by (rule Cons.IH) simp
  also have "\<dots> = [Min (insert (e ! 0) (coordinates 0 (p # ps))), Max (insert (e ! 1) (coordinates 0 (p # ps))),
      Min (insert (e ! 2) (coordinates 1 (p # ps))), Max (insert (e ! 3) (coordinates 1 (p # ps))),
      Min (insert (e ! 4) (coordinates 2 (p # ps))), Max (insert (e ! 5) (coordinates 2 (p # ps)))]"
    by (simp add: include_point_def Min_insert_min Max_insert_max coordinates_Cons)
  finally show ?case .
qed

lemma extent_Ref_of_frames_Min_Max:
  "extent_Ref_of_frames dmax dmin self frames =
     [Min (insert dmax (coordinates 0 (corners_Ref self frames))),
      Max (insert dmin (coordinates 0 (corners_Ref self frames))),
      Min (insert dmax (coordinates 1 (corners_Ref self frames))),
      Max (insert dmin (coordinates 1 (corners_Ref self frames))),
      Min (insert dmax (coordinates 2 (corners_Ref self frames))),
      Max (insert dmin (coordinates 2 (corners_Ref self frames)))]"
  by (simp add: extent_Ref_of_frames_def extent_Ref_loop_eq foldl_include_point_Min_Max)

lemma less3E:
  assumes "(axis::nat) < 3"
  obtains "axis = 0" | "axis = 1" | "axis = 2"
  using assms by arith

lemma requested_output_cong:
  "extent_Ref_of_frames dmax dmin self frames = extent_Ref_of_frames dmax dmin self frames' \<Longrightarrow>
   requested_output rnd dmax dmin self frames = requested_output rnd dmax dmin self frames'"
  by (simp add: requested_output_def)


subsection \<open>The example data\<close>

lemma sentinel_values:
  "2147483649 \<le> VTK_DOUBLE_MAX_value" "VTK_DOUBLE_MIN_value = - VTK_DOUBLE_MAX_value"
  by (simp_all add: VTK_DOUBLE_MAX_value_def VTK_DOUBLE_MIN_value_def)

lemma example_corners_Ref:
  "corners_Ref (example_reconstructor\<lparr>Reconstructor := r\<rparr>) [example_frame] =
     [[0, 0, 0, 1], [0, 20, 0, 1], [10, 0, 0, 1], [10, 20, 0, 1]]"
  by (simp add: corners_Ref_def frame_corners_Ref_def example_frame_def example_reconstructor_def
      four_corners_def example_image_def MultiplyPoint_def Multiply4x4_def Identity4x4_def
      Element_def upt_rec)

lemma example_coordinates:
  "coordinates 0 [[0, 0, 0, 1], [0, 20, 0, 1], [10, 0, 0, 1], [10, 20, 0, 1]] = {0, 10}"
  "coordinates 1 [[0, 0, 0, 1], [0, 20, 0, 1], [10, 0, 0, 1], [10, 20, 0, 1]] = {0, 20}"
  "coordinates (Suc 0) [[0, 0, 0, 1], [0, 20, 0, 1], [10, 0, 0, 1], [10, 20, 0, 1]] = {0, 20}"
  "coordinates 2 [[0, 0, 0, 1], [0, 20, 0, 1], [10, 0, 0, 1], [10, 20, 0, 1]] = {0}"
  by (auto simp: coordinates_def)

lemma example_extent_Ref:
  "extent_Ref_of_frames VTK_DOUBLE_MAX_value VTK_DOUBLE_MIN_value (example_reconstructor\<lparr>Reconstructor := r\<rparr>)
     [example_frame] = [0, 10, 0, 20, 0, 0]"
  using sentinel_values
  by (simp add: extent_Ref_of_frames_Min_Max example_corners_Ref example_coordinates)

section \<open>The resolved transform of a frame\<close>

lemma Element_Multiply4x4:
  assumes "i < 4" and "j < 4"
  shows "Element (Multiply4x4 a b) i j =
     Element a i 0 * Element b 0 j + Element a i 1 * Element b 1 j
   + Element a i 2 * Element b 2 j + Element a i 3 * Element b 3 j"
proof -
  from assms have n: "4 * i + j < 16" by arith
  from assms have d: "(4 * i + j) div 4 = i" and m: "(4 * i + j) mod 4 = j" by simp_all
  have "Element (Multiply4x4 a b) i j = Multiply4x4 a b ! (4 * i + j)"
    by (simp add: Element_def)
  also have "\<dots> = Element a ((4 * i + j) div 4) 0 * Element b 0 ((4 * i + j) mod 4)
      + Element a ((4 * i + j) div 4) 1 * Element b 1 ((4 * i + j) mod 4)
      + Element a ((4 * i + j) div 4) 2 * Element b 2 ((4 * i + j) mod 4)
      + Element a ((4 * i + j) div 4) 3 * Element b 3 ((4 * i + j) mod 4)"
    unfolding Multiply4x4_def using n by (simp del: upt_Suc)
  finally show ?thesis by (simp only: d m)
qed

lemma sum_below_4: "(\<Sum>k<(4::nat). f k) = f 0 + f 1 + f 2 + (f 3 :: real)"
  by (simp add: eval_nat_numeral lessThan_Suc)

lemma upt4: "[0..<4] = [0, 1, 2, 3]"
  by (simp add: upt_rec)

lemma MultiplyPoint_Multiply4x4:
  "MultiplyPoint (Multiply4x4 a b) p = MultiplyPoint a (MultiplyPoint b p)"
  unfolding MultiplyPoint_def upt4
  by (simp add: Element_Multiply4x4 algebra_simps)

text \<open>
  C1. For every frame with a valid pose, the per-frame overload of
  \<^verbatim>\<open>GetImageToReferenceTransformMatrix\<close> succeeds and hands back the matrix product
  \<open>ToolToReference * ImageToTool\<close>, in this order: entry \<open>(i, j)\<close> is the row \<open>i\<close> of the
  pose times the column \<open>j\<close> of the calibration, and transforming a point with the result
  is applying the calibration first and the pose second.
\<close>

theorem ImageToReference_is_ToolToReference_times_ImageToTool:
  assumes "DefaultFrameTransform frame = Some toolToReference"
  shows "GetImageToReferenceTransformMatrix_frame self frame out =
           (PLUS_SUCCESS, Multiply4x4 toolToReference (ImageToToolTransform self))
       \<and> (\<forall>i<4. \<forall>j<4.
            Element (snd (GetImageToReferenceTransformMatrix_frame self frame out)) i j =
              (\<Sum>k<4. Element toolToReference i k * Element (ImageToToolTransform self) k j))
       \<and> (\<forall>p. MultiplyPoint (snd (GetImageToReferenceTransformMatrix_frame self frame out)) p =
              MultiplyPoint toolToReference (MultiplyPoint (ImageToToolTransform self) p))"
proof -
  have run: "GetImageToReferenceTransformMatrix_frame self frame out =
      (PLUS_SUCCESS, Multiply4x4 toolToReference (ImageToToolTransform self))"
    using assms by (rule frame_transform_Some)
  show ?thesis
    unfolding run by (simp add: Element_Multiply4x4 sum_below_4 MultiplyPoint_Multiply4x4)
qed

theorem ImageToReference_is_ToolToReference_times_ImageToTool_witness:
  "DefaultFrameTransform (example_frame\<lparr>DefaultFrameTransform := Some example_pose\<rparr>) = Some example_pose
   \<and> GetImageToReferenceTransformMatrix_frame
        (example_reconstructor\<lparr>ImageToToolTransform := example_calibration\<rparr>)
        (example_frame\<lparr>DefaultFrameTransform := Some example_pose\<rparr>) Identity4x4
      = (PLUS_SUCCESS, [2, 0, 0, 1,  0, 2, 0, 2,  0, 0, 2, 3,  0, 0, 0, 1])
   \<and> Multiply4x4 example_calibration example_pose = [2, 0, 0, 2,  0, 2, 0, 4,  0, 0, 2, 6,  0, 0, 0, 1]"
proof -
  have pose: "DefaultFrameTransform (example_frame\<lparr>DefaultFrameTransform := Some example_pose\<rparr>)
      = Some example_pose"
    by simp
  have product: "Multiply4x4 example_pose example_calibration =
      [2, 0, 0, 1,  0, 2, 0, 2,  0, 0, 2, 3,  0, 0, 0, 1]"
    by (simp add: Multiply4x4_def Element_def example_pose_def example_calibration_def upt_rec)
  have commuted: "Multiply4x4 example_calibration example_pose =
      [2, 0, 0, 2,  0, 2, 0, 4,  0, 0, 2, 6,  0, 0, 0, 1]"
    by (simp add: Multiply4x4_def Element_def example_pose_def example_calibration_def upt_rec)
  from ImageToReference_is_ToolToReference_times_ImageToTool [OF pose,
      of "example_reconstructor\<lparr>ImageToToolTransform := example_calibration\<rparr>" Identity4x4]
  have "GetImageToReferenceTransformMatrix_frame
        (example_reconstructor\<lparr>ImageToToolTransform := example_calibration\<rparr>)
        (example_frame\<lparr>DefaultFrameTransform := Some example_pose\<rparr>) Identity4x4
      = (PLUS_SUCCESS, Multiply4x4 example_pose example_calibration)"
    by simp
  with pose product commuted show ?thesis by simp
qed

section \<open>From the bounding box to the output extent\<close>












section \<open>No frame with a pose\<close>

lemma corners_Ref_no_pose:
  "\<forall>frame \<in> set frames. DefaultFrameTransform frame = None \<Longrightarrow> corners_Ref self frames = []"
  by (induction frames) (simp_all add: corners_Ref_def frame_corners_Ref_def)

text \<open>
  C3, as the code has it. When no frame of the list has a valid pose,
  \<^verbatim>\<open>SetOutputExtentFromFrameList\<close> does not look at the box: the box is still the
  sentinel box, the upper index bounds are \<^verbatim>\<open>int( ( VTK_DOUBLE_MIN - VTK_DOUBLE_MAX ) / spacing )\<close>,
  the origin is \<^verbatim>\<open>VTK_DOUBLE_MAX\<close> on each axis, and the call goes on to \<^verbatim>\<open>ResetOutput\<close>
  with this filter: the status is that of the \<^verbatim>\<open>try\<close> block alone. Where one of the
  three conversions does not fit an \<^verbatim>\<open>int\<close>, the behaviour is undefined.
\<close>

theorem no_valid_pose_is_not_detected:
  assumes "\<forall>frame \<in> set frames. DefaultFrameTransform frame = None"
  shows "extent_Ref_of_frames dmax dmin self frames = [dmax, dmin, dmax, dmin, dmax, dmin]
       \<and> SetOutputExtentFromFrameList ResetOutput rnd dmax dmin self frames =
           (case (extent_bound rnd dmin dmax (OutputSpacing (Reconstructor self) ! 0),
                  extent_bound rnd dmin dmax (OutputSpacing (Reconstructor self) ! 1),
                  extent_bound rnd dmin dmax (OutputSpacing (Reconstructor self) ! 2)) of
              (Some e1, Some e3, Some e5) \<Rightarrow>
                try_ResetOutput ResetOutput self ((Reconstructor self)
                  \<lparr>OutputExtent := [0, e1, 0, e3, 0, e5], OutputOrigin := [dmax, dmax, dmax]\<rparr>)
            | _ \<Rightarrow> UndefinedBehaviour)"
proof -
  from assms have "corners_Ref self frames = []" by (rule corners_Ref_no_pose)
  then have box: "extent_Ref_of_frames dmax dmin self frames = [dmax, dmin, dmax, dmin, dmax, dmin]"
    by (simp add: extent_Ref_of_frames_Min_Max coordinates_def)
  show ?thesis
    unfolding SetOutputExtentFromFrameList_def requested_output_def box
    by (simp add: SetOutputOrigin_def SetOutputExtent_def split: option.splits)
qed

lemma int_of_double_below:
  assumes "x \<le> - 2147483649"
  shows "int_of_double x = None"
proof -
  from assms have "\<lceil>x\<rceil> \<le> - 2147483649" by (simp add: ceiling_le_iff)
  with assms show ?thesis by (simp add: int_of_double_def)
qed

lemma sentinel_extent_bound:
  "extent_bound exact_result VTK_DOUBLE_MIN_value VTK_DOUBLE_MAX_value (VTK_DOUBLE_MAX_value / 4) = Some (- 8)"
  "extent_bound exact_result VTK_DOUBLE_MIN_value VTK_DOUBLE_MAX_value VTK_DOUBLE_MAX_value = Some (- 2)"
  "extent_bound exact_result VTK_DOUBLE_MIN_value VTK_DOUBLE_MAX_value 1 = None"
proof -
  from sentinel_values(1) have pos: "0 < VTK_DOUBLE_MAX_value" by simp
  then have "(VTK_DOUBLE_MIN_value - VTK_DOUBLE_MAX_value) / (VTK_DOUBLE_MAX_value / 4) = - 8"
    and "(VTK_DOUBLE_MIN_value - VTK_DOUBLE_MAX_value) / VTK_DOUBLE_MAX_value = - 2"
    by (simp_all add: sentinel_values(2) field_simps)
  with pos show
    "extent_bound exact_result VTK_DOUBLE_MIN_value VTK_DOUBLE_MAX_value (VTK_DOUBLE_MAX_value / 4) = Some (- 8)"
    "extent_bound exact_result VTK_DOUBLE_MIN_value VTK_DOUBLE_MAX_value VTK_DOUBLE_MAX_value = Some (- 2)"
    by (simp_all add: extent_bound_def double_quotient_def double_sub_def double_div_def
        exact_result_def int_of_double_def)
  from sentinel_values have "(VTK_DOUBLE_MIN_value - VTK_DOUBLE_MAX_value) / 1 \<le> - 2147483649"
    by simp
  then have "int_of_double ((VTK_DOUBLE_MIN_value - VTK_DOUBLE_MAX_value) / 1) = None"
    by (rule int_of_double_below)
  then show "extent_bound exact_result VTK_DOUBLE_MIN_value VTK_DOUBLE_MAX_value 1 = None"
    by (simp add: extent_bound_def double_quotient_def double_sub_def double_div_def
        exact_result_def)
qed

theorem no_valid_pose_is_not_detected_witness:
  "DefaultFrameTransform lost_frame = None
   \<and> extent_Ref_of_frames VTK_DOUBLE_MAX_value VTK_DOUBLE_MIN_value
        (example_reconstructor_spaced (VTK_DOUBLE_MAX_value / 4)) [lost_frame, lost_frame] =
       [VTK_DOUBLE_MAX_value, VTK_DOUBLE_MIN_value, VTK_DOUBLE_MAX_value, VTK_DOUBLE_MIN_value,
        VTK_DOUBLE_MAX_value, VTK_DOUBLE_MIN_value]
   \<and> SetOutputExtentFromFrameList (ResetOutput_limited 1000000) exact_result VTK_DOUBLE_MAX_value VTK_DOUBLE_MIN_value
        (example_reconstructor_spaced (VTK_DOUBLE_MAX_value / 4)) [lost_frame, lost_frame] =
       Returned PLUS_SUCCESS ((example_reconstructor_spaced (VTK_DOUBLE_MAX_value / 4))
         \<lparr>Reconstructor := example_filter
            \<lparr>OutputSpacing := [VTK_DOUBLE_MAX_value / 4, VTK_DOUBLE_MAX_value / 4, VTK_DOUBLE_MAX_value / 4],
             OutputExtent := [0, - 8, 0, - 8, 0, - 8],
             OutputOrigin := [VTK_DOUBLE_MAX_value, VTK_DOUBLE_MAX_value, VTK_DOUBLE_MAX_value]\<rparr>\<rparr>)"
proof -
  have lost: "\<forall>frame \<in> set [lost_frame, lost_frame]. DefaultFrameTransform frame = None"
    by (simp add: lost_frame_def)
  from no_valid_pose_is_not_detected [OF lost, where dmax = VTK_DOUBLE_MAX_value
      and dmin = VTK_DOUBLE_MIN_value and rnd = exact_result
      and self = "example_reconstructor_spaced (VTK_DOUBLE_MAX_value / 4)"
      and ResetOutput = "ResetOutput_limited 1000000"] lost
  show ?thesis
    by (simp add: example_reconstructor_spaced_def sentinel_extent_bound try_ResetOutput_def
        ResetOutput_limited_def)
qed

text \<open>
  The claim as it was stated fails on a list whose only frame has no pose: with an
  allocator that succeeds and a spacing as large as the sentinel, the call returns
  \<^verbatim>\<open>PLUS_SUCCESS\<close> for the extent \<open>[0, -2]\<close> on each axis and the origin at the
  sentinel; with the spacing \<open>(1, 1, 1)\<close> the conversion to \<^verbatim>\<open>int\<close> is undefined.
  Neither is a reported failure.
\<close>

theorem no_valid_pose_counterexample:
  "SetOutputExtentFromFrameList ResetOutput_unlimited exact_result VTK_DOUBLE_MAX_value VTK_DOUBLE_MIN_value
      (example_reconstructor_spaced VTK_DOUBLE_MAX_value) [lost_frame] =
     Returned PLUS_SUCCESS ((example_reconstructor_spaced VTK_DOUBLE_MAX_value)
       \<lparr>Reconstructor := example_filter
          \<lparr>OutputSpacing := [VTK_DOUBLE_MAX_value, VTK_DOUBLE_MAX_value, VTK_DOUBLE_MAX_value],
           OutputExtent := [0, - 2, 0, - 2, 0, - 2],
           OutputOrigin := [VTK_DOUBLE_MAX_value, VTK_DOUBLE_MAX_value, VTK_DOUBLE_MAX_value]\<rparr>\<rparr>)
   \<and> SetOutputExtentFromFrameList ResetOutput_unlimited exact_result VTK_DOUBLE_MAX_value VTK_DOUBLE_MIN_value
      (example_reconstructor_spaced 1) [lost_frame] = UndefinedBehaviour"
proof -
  have loop: "extent_Ref_of_frames dmax dmin self [lost_frame] = [dmax, dmin, dmax, dmin, dmax, dmin]"
    for dmax dmin and self :: "nat vtkVolumeReconstructor"
    by (simp add: extent_Ref_of_frames_def GetImageToReferenceTransformMatrix_frame_def
        lost_frame_def)
  show ?thesis
    unfolding SetOutputExtentFromFrameList_def requested_output_def loop
    by (simp add: example_reconstructor_spaced_def sentinel_extent_bound try_ResetOutput_def
        ResetOutput_unlimited_def SetOutputOrigin_def SetOutputExtent_def Let_def)
qed

section \<open>Frames without a pose\<close>

lemma extent_Ref_loop_append:
  "extent_Ref_loop self (xs @ ys) e = extent_Ref_loop self ys (extent_Ref_loop self xs e)"
  by (induction xs arbitrary: e) (simp_all split: prod.splits)

text \<open>
  C4. For a frame without a valid pose: resolving its transform returns \<^verbatim>\<open>PLUS_FAIL\<close>
  (and leaves the out-parameter alone); \<^verbatim>\<open>AddTrackedFrame\<close> returns \<^verbatim>\<open>PLUS_FAIL\<close> with
  the reconstructor, hence the volume, unchanged, whatever \<^verbatim>\<open>InsertSlice\<close> would do;
  and in extent estimation the frame, wherever it stands in the list, changes neither
  the accumulated box nor the outcome, the frames before and after it being processed
  as if it were not there.
\<close>

theorem frame_without_pose_is_skipped:
  assumes "DefaultFrameTransform frame = None"
  shows "GetImageToReferenceTransformMatrix_frame self frame out = (PLUS_FAIL, out)
       \<and> AddTrackedFrame InsertSlice self frame = (PLUS_FAIL, self)
       \<and> extent_Ref_loop self (before @ frame # after) extent_Ref =
           extent_Ref_loop self (before @ after) extent_Ref
       \<and> SetOutputExtentFromFrameList ResetOutput rnd dmax dmin self (before @ frame # after) =
           SetOutputExtentFromFrameList ResetOutput rnd dmax dmin self (before @ after)"
proof -
  have fail: "GetImageToReferenceTransformMatrix_frame self frame m = (PLUS_FAIL, m)" for m
    using assms by (rule frame_transform_None)
  have skip: "extent_Ref_loop self (before @ frame # after) e =
      extent_Ref_loop self (before @ after) e" for e
    by (simp add: extent_Ref_loop_append fail)
  have "requested_output rnd dmax dmin self (before @ frame # after) =
      requested_output rnd dmax dmin self (before @ after)"
    by (rule requested_output_cong) (simp add: extent_Ref_of_frames_def skip)
  then have "SetOutputExtentFromFrameList ResetOutput rnd dmax dmin self (before @ frame # after) =
      SetOutputExtentFromFrameList ResetOutput rnd dmax dmin self (before @ after)"
    by (simp add: SetOutputExtentFromFrameList_def)
  moreover have "AddTrackedFrame InsertSlice self frame = (PLUS_FAIL, self)"
    by (simp add: AddTrackedFrame_def fail)
  ultimately show ?thesis using fail skip by simp
qed

theorem frame_without_pose_is_skipped_witness:
  "DefaultFrameTransform lost_frame = None
   \<and> GetImageToReferenceTransformMatrix_frame example_reconstructor lost_frame Identity4x4 =
       (PLUS_FAIL, Identity4x4)
   \<and> AddTrackedFrame (\<lambda>img m r. (PLUS_SUCCESS, r\<lparr>OutputOrigin := [1, 1, 1]\<rparr>))
       example_reconstructor lost_frame = (PLUS_FAIL, example_reconstructor)
   \<and> extent_Ref_loop example_reconstructor ([example_frame] @ lost_frame # []) [5, 5, 5, 5, 5, 5] =
       extent_Ref_loop example_reconstructor ([example_frame] @ []) [5, 5, 5, 5, 5, 5]
   \<and> SetOutputExtentFromFrameList ResetOutput_unlimited exact_result VTK_DOUBLE_MAX_value
         VTK_DOUBLE_MIN_value example_reconstructor
         ([example_frame] @ lost_frame # []) =
       SetOutputExtentFromFrameList ResetOutput_unlimited exact_result VTK_DOUBLE_MAX_value
         VTK_DOUBLE_MIN_value example_reconstructor
         ([example_frame] @ [])"
proof -
  have lost: "DefaultFrameTransform lost_frame = None"
    by (simp add: lost_frame_def)
  from frame_without_pose_is_skipped [OF lost, where self = example_reconstructor
      and out = Identity4x4
      and InsertSlice = "\<lambda>img m r. (PLUS_SUCCESS, r\<lparr>OutputOrigin := [1, 1, 1]\<rparr>)"
      and before = "[example_frame]" and after = "[]" and extent_Ref = "[5, 5, 5, 5, 5, 5]"
      and ResetOutput = ResetOutput_unlimited and rnd = exact_result
      and dmax = VTK_DOUBLE_MAX_value and dmin = VTK_DOUBLE_MIN_value] lost
  show ?thesis by blast
qed

section \<open>The running bounding box\<close>

text \<open>
  C5. Extent estimation starts from the sentinel box
  \<open>[VTK_DOUBLE_MAX, VTK_DOUBLE_MIN, ...]\<close> before any frame is processed; the corners it
  takes from a frame image are exactly \<open>(xmin, ymin)\<close>, \<open>(xmin, ymax)\<close>, \<open>(xmax, ymin)\<close>,
  \<open>(xmax, ymax)\<close> at \<open>z = 0\<close>; and after the loop each entry of \<open>extent_Ref\<close> is the
  minimum (the maximum) of the sentinel and of that coordinate of all the corners of the
  frames with a pose, each corner sent through the frame's \<open>ToolToReference * ImageToTool\<close>.
\<close>

theorem extent_Ref_is_running_min_max_of_corners:
  "extent_Ref_of_frames dmax dmin self [] = [dmax, dmin, dmax, dmin, dmax, dmin]
   \<and> corners_ImagePix img =
       [[real_of_int (Extent img ! 0), real_of_int (Extent img ! 2), 0, 1],
        [real_of_int (Extent img ! 0), real_of_int (Extent img ! 3), 0, 1],
        [real_of_int (Extent img ! 1), real_of_int (Extent img ! 2), 0, 1],
        [real_of_int (Extent img ! 1), real_of_int (Extent img ! 3), 0, 1]]
   \<and> extent_Ref_of_frames dmax dmin self frames =
       [Min (insert dmax (coordinates 0 (corners_Ref self frames))),
        Max (insert dmin (coordinates 0 (corners_Ref self frames))),
        Min (insert dmax (coordinates 1 (corners_Ref self frames))),
        Max (insert dmin (coordinates 1 (corners_Ref self frames))),
        Min (insert dmax (coordinates 2 (corners_Ref self frames))),
        Max (insert dmin (coordinates 2 (corners_Ref self frames)))]"
proof -
  have "extent_Ref_of_frames dmax dmin self [] = [dmax, dmin, dmax, dmin, dmax, dmin]"
    by (simp add: extent_Ref_of_frames_def)
  moreover have "corners_ImagePix img =
       [[real_of_int (Extent img ! 0), real_of_int (Extent img ! 2), 0, 1],
        [real_of_int (Extent img ! 0), real_of_int (Extent img ! 3), 0, 1],
        [real_of_int (Extent img ! 1), real_of_int (Extent img ! 2), 0, 1],
        [real_of_int (Extent img ! 1), real_of_int (Extent img ! 3), 0, 1]]"
    by (simp add: corners_ImagePix_def Let_def)
  ultimately show ?thesis
    using extent_Ref_of_frames_Min_Max [of dmax dmin self frames] by simp
qed

section \<open>Allocation failure\<close>

text \<open>
  What the \<^verbatim>\<open>try\<close> block does once the allocator is reached: when \<^verbatim>\<open>ResetOutput\<close>
  throws \<^verbatim>\<open>bad_alloc\<close> or reports a failure on the requested filter, the status is
  \<^verbatim>\<open>PLUS_FAIL\<close> and no exception leaves the call.
\<close>

lemma caught_allocation_failure:
  assumes "requested_output rnd dmax dmin self frames = Some r"
    and "fst (ResetOutput r) = Inl bad_alloc \<or> fst (ResetOutput r) = Inr PLUS_FAIL"
  shows "SetOutputExtentFromFrameList ResetOutput rnd dmax dmin self frames =
           Returned PLUS_FAIL (self\<lparr>Reconstructor := snd (ResetOutput r)\<rparr>)"
proof -
  obtain res r' where R: "ResetOutput r = (res, r')" by (cases "ResetOutput r")
  with assms(2) have "res = Inl bad_alloc \<or> res = Inr PLUS_FAIL" by simp
  then have "try_ResetOutput ResetOutput self r = Returned PLUS_FAIL (self\<lparr>Reconstructor := r'\<rparr>)"
    by (auto simp: try_ResetOutput_def R)
  with assms(1) R show ?thesis
    by (simp add: SetOutputExtentFromFrameList_def)
qed

lemma example_allocation_failure:
  "SetOutputExtentFromFrameList (ResetOutput_limited 1000000) exact_result VTK_DOUBLE_MAX_value
     VTK_DOUBLE_MIN_value (example_reconstructor_spaced (1 / 128)) [example_frame] =
   Returned PLUS_FAIL ((example_reconstructor_spaced (1 / 128))
     \<lparr>Reconstructor := example_filter\<lparr>OutputSpacing := [1 / 128, 1 / 128, 1 / 128],
          OutputExtent := [0, 1280, 0, 2560, 0, 0], OutputOrigin := [0, 0, 0]\<rparr>\<rparr>)"
  unfolding example_reconstructor_spaced_def SetOutputExtentFromFrameList_def requested_output_def
    example_extent_Ref
  by (simp add: extent_bound_def double_quotient_def double_sub_def double_div_def
      exact_result_def int_of_double_def SetOutputOrigin_def SetOutputExtent_def
      try_ResetOutput_def ResetOutput_limited_def)

text \<open>
  C6. The claim is that a requested extent too large for the memory ends in the status
  \<^verbatim>\<open>PLUS_FAIL\<close>. The requests that are the most oversized never reach the allocator
  with their size: for the frame whose corners span \<open>[0,10] x [0,20] x [0,0]\<close> and the
  spacing \<open>2\<^sup>-\<^sup>3\<^sup>0\<close> on each axis, the quotient \<open>10 / 2\<^sup>-\<^sup>3\<^sup>0 = 10737418240\<close> does not
  fit an \<^verbatim>\<open>int\<close>, the source converts it unchecked, and the behaviour of the call is
  undefined whatever the allocator would do, also for one that throws \<^verbatim>\<open>bad_alloc\<close>
  on every request.
\<close>

theorem oversized_request_is_undefined:
  "requested_output exact_result VTK_DOUBLE_MAX_value VTK_DOUBLE_MIN_value
      (example_reconstructor_spaced (1 / 2 ^ 30)) [example_frame] = None
   \<and> SetOutputExtentFromFrameList ResetOutput exact_result VTK_DOUBLE_MAX_value VTK_DOUBLE_MIN_value
      (example_reconstructor_spaced (1 / 2 ^ 30)) [example_frame] = UndefinedBehaviour"
proof -
  have "extent_bound exact_result 10 0 (1 / 2 ^ 30) = None"
    by (simp add: extent_bound_def double_quotient_def double_sub_def double_div_def
        exact_result_def int_of_double_def)
  then have "requested_output exact_result VTK_DOUBLE_MAX_value VTK_DOUBLE_MIN_value
      (example_reconstructor_spaced (1 / 2 ^ 30)) [example_frame] = None"
    unfolding example_reconstructor_spaced_def requested_output_def example_extent_Ref
    by simp
  then show ?thesis
    by (simp add: SetOutputExtentFromFrameList_def)
qed

section \<open>The extracted volume\<close>

text \<open>
  C7. \<^verbatim>\<open>GetReconstructedVolume\<close> succeeds and hands back a single-channel volume with
  the extent, spacing and origin of the reconstruction volume; every voxel of it holds
  component 0 (the intensity) of the same voxel of the reconstruction volume, unchanged,
  and nothing else, so the mask channel is absent. The reconstruction volume is taken
  to be well formed: it has at least one component and every voxel has as many values
  as the volume has components.
\<close>

theorem GetReconstructedVolume_is_intensity_channel:
  assumes "1 \<le> NumberOfScalarComponents (ReconstructedVolume (Reconstructor self))"
    and "\<forall>voxel \<in> set (Scalars (ReconstructedVolume (Reconstructor self))).
           length voxel = NumberOfScalarComponents (ReconstructedVolume (Reconstructor self))"
  shows "fst (GetReconstructedVolume self out) = PLUS_SUCCESS
       \<and> Extent (snd (GetReconstructedVolume self out)) = Extent (ReconstructedVolume (Reconstructor self))
       \<and> Spacing (snd (GetReconstructedVolume self out)) = Spacing (ReconstructedVolume (Reconstructor self))
       \<and> Origin (snd (GetReconstructedVolume self out)) = Origin (ReconstructedVolume (Reconstructor self))
       \<and> NumberOfScalarComponents (snd (GetReconstructedVolume self out)) = 1
       \<and> length (Scalars (snd (GetReconstructedVolume self out))) =
           length (Scalars (ReconstructedVolume (Reconstructor self)))
       \<and> (\<forall>n < length (Scalars (ReconstructedVolume (Reconstructor self))).
            Scalars (snd (GetReconstructedVolume self out)) ! n =
              [hd (Scalars (ReconstructedVolume (Reconstructor self)) ! n)])
       \<and> (\<forall>voxel \<in> set (Scalars (snd (GetReconstructedVolume self out))). length voxel = 1)"
proof -
  let ?V = "ReconstructedVolume (Reconstructor self)"
  have out: "snd (GetReconstructedVolume self out) =
      ?V\<lparr>NumberOfScalarComponents := 1, Scalars := map (\<lambda>voxel. [voxel ! 0]) (Scalars ?V)\<rparr>"
    by (simp add: GetReconstructedVolume_def ExtractComponents_def)
  have "hd (Scalars ?V ! n) = Scalars ?V ! n ! 0" if "n < length (Scalars ?V)" for n
  proof -
    from that have "Scalars ?V ! n \<in> set (Scalars ?V)" by simp
    with assms have "Scalars ?V ! n \<noteq> []" by fastforce
    then show ?thesis by (simp add: hd_conv_nth)
  qed
  then show ?thesis
    unfolding out by (simp add: GetReconstructedVolume_def)
qed

theorem GetReconstructedVolume_is_intensity_channel_witness:
  "1 \<le> NumberOfScalarComponents (ReconstructedVolume (Reconstructor example_reconstructor))
   \<and> GetReconstructedVolume example_reconstructor example_image =
       (PLUS_SUCCESS,
        \<lparr>Extent = [0, 1, 0, 0, 0, 0], Spacing = [1, 1, 1], Origin = [0, 0, 0],
         NumberOfScalarComponents = 1, Scalars = [[7], [0]]\<rparr>)
   \<and> Scalars (snd (GetReconstructedVolume example_reconstructor example_image)) ! 0 =
       [hd (Scalars (ReconstructedVolume (Reconstructor example_reconstructor)) ! 0)]"
proof -
  have c: "1 \<le> NumberOfScalarComponents (ReconstructedVolume (Reconstructor example_reconstructor))"
    by (simp add: example_reconstructor_def example_filter_def example_volume_def)
  have w: "\<forall>voxel \<in> set (Scalars (ReconstructedVolume (Reconstructor example_reconstructor))).
      length voxel = NumberOfScalarComponents (ReconstructedVolume (Reconstructor example_reconstructor))"
    by (simp add: example_reconstructor_def example_filter_def example_volume_def)
  have n: "0 < length (Scalars (ReconstructedVolume (Reconstructor example_reconstructor)))"
    by (simp add: example_reconstructor_def example_filter_def example_volume_def)
  have run: "GetReconstructedVolume example_reconstructor example_image =
       (PLUS_SUCCESS,
        \<lparr>Extent = [0, 1, 0, 0, 0, 0], Spacing = [1, 1, 1], Origin = [0, 0, 0],
         NumberOfScalarComponents = 1, Scalars = [[7], [0]]\<rparr>)"
    by (simp add: GetReconstructedVolume_def ExtractComponents_def example_reconstructor_def
        example_filter_def example_volume_def)
  from GetReconstructedVolume_is_intensity_channel [OF c w, of example_image] n
  have "Scalars (snd (GetReconstructedVolume example_reconstructor example_image)) ! 0 =
       [hd (Scalars (ReconstructedVolume (Reconstructor example_reconstructor)) ! 0)]"
    by blast
  with c run show ?thesis by simp
qed

section \<open>The order of the frames\<close>

lemma set_corners_Ref:
  "set (corners_Ref self frames) = (\<Union>frame \<in> set frames. set (frame_corners_Ref self frame))"
  by (simp add: corners_Ref_def)

lemma coordinates_corners_Ref_cong:
  "set frames = set frames' \<Longrightarrow>
   coordinates k (corners_Ref self frames) = coordinates k (corners_Ref self frames')"
  by (simp add: coordinates_def set_corners_Ref)

text \<open>
  C8. Extent estimation does not depend on the order of the frames: for every list of
  frames and every reordering of it, the accumulated box, the extent and origin asked
  of the filter, and the outcome of \<^verbatim>\<open>SetOutputExtentFromFrameList\<close> are the same.
\<close>

theorem extent_estimation_ignores_frame_order:
  assumes "mset frames = mset frames'"
  shows "extent_Ref_of_frames dmax dmin self frames = extent_Ref_of_frames dmax dmin self frames'
       \<and> requested_output rnd dmax dmin self frames = requested_output rnd dmax dmin self frames'
       \<and> SetOutputExtentFromFrameList ResetOutput rnd dmax dmin self frames =
           SetOutputExtentFromFrameList ResetOutput rnd dmax dmin self frames'"
proof -
  from assms have "set frames = set frames'" by (rule mset_eq_setD)
  then have box: "extent_Ref_of_frames dmax dmin self frames = extent_Ref_of_frames dmax dmin self frames'"
    by (simp add: extent_Ref_of_frames_Min_Max coordinates_corners_Ref_cong [of frames frames'])
  then have "requested_output rnd dmax dmin self frames = requested_output rnd dmax dmin self frames'"
    by (rule requested_output_cong)
  with box show ?thesis by (simp add: SetOutputExtentFromFrameList_def)
qed

theorem extent_estimation_ignores_frame_order_witness:
  "mset [example_frame, lost_frame, example_frame\<lparr>DefaultFrameTransform := Some example_pose\<rparr>] =
     mset [example_frame\<lparr>DefaultFrameTransform := Some example_pose\<rparr>, example_frame, lost_frame]
   \<and> extent_Ref_of_frames VTK_DOUBLE_MAX_value VTK_DOUBLE_MIN_value example_reconstructor
       [example_frame, lost_frame, example_frame\<lparr>DefaultFrameTransform := Some example_pose\<rparr>] =
     extent_Ref_of_frames VTK_DOUBLE_MAX_value VTK_DOUBLE_MIN_value example_reconstructor
       [example_frame\<lparr>DefaultFrameTransform := Some example_pose\<rparr>, example_frame, lost_frame]
   \<and> SetOutputExtentFromFrameList ResetOutput_unlimited exact_result VTK_DOUBLE_MAX_value
       VTK_DOUBLE_MIN_value example_reconstructor
       [example_frame, lost_frame, example_frame\<lparr>DefaultFrameTransform := Some example_pose\<rparr>] =
     SetOutputExtentFromFrameList ResetOutput_unlimited exact_result VTK_DOUBLE_MAX_value
       VTK_DOUBLE_MIN_value example_reconstructor
       [example_frame\<lparr>DefaultFrameTransform := Some example_pose\<rparr>, example_frame, lost_frame]"
proof -
  have reordered:
    "mset [example_frame, lost_frame, example_frame\<lparr>DefaultFrameTransform := Some example_pose\<rparr>] =
     mset [example_frame\<lparr>DefaultFrameTransform := Some example_pose\<rparr>, example_frame, lost_frame]"
    by simp
  from extent_estimation_ignores_frame_order [OF reordered, where dmax = VTK_DOUBLE_MAX_value
      and dmin = VTK_DOUBLE_MIN_value and self = example_reconstructor
      and ResetOutput = ResetOutput_unlimited and rnd = exact_result] reordered
  show ?thesis by blast
qed

section \<open>Widening of the bounding box\<close>

text \<open>
  C9. \<^verbatim>\<open>AddImageToExtent\<close> only ever widens the box it is given: for every image, every
  transform and every array \<open>extent_Ref\<close> of six doubles, on each of the three axes the
  new minimum is at most the old minimum and the new maximum is at least the old
  maximum, so the old interval lies within the new one.
\<close>

theorem AddImageToExtent_widens:
  assumes "length extent_Ref = 6" and "axis < 3"
  shows "AddImageToExtent img m extent_Ref ! (axis * 2) \<le> extent_Ref ! (axis * 2)
       \<and> extent_Ref ! (axis * 2 + 1) \<le> AddImageToExtent img m extent_Ref ! (axis * 2 + 1)"
proof -
  let ?ps = "map (MultiplyPoint m) (four_corners img)"
  have eq: "AddImageToExtent img m extent_Ref =
     [Min (insert (extent_Ref ! 0) (coordinates 0 ?ps)), Max (insert (extent_Ref ! 1) (coordinates 0 ?ps)),
      Min (insert (extent_Ref ! 2) (coordinates 1 ?ps)), Max (insert (extent_Ref ! 3) (coordinates 1 ?ps)),
      Min (insert (extent_Ref ! 4) (coordinates 2 ?ps)), Max (insert (extent_Ref ! 5) (coordinates 2 ?ps))]"
    using assms(1) by (simp add: AddImageToExtent_eq foldl_include_point_Min_Max)
  have lo: "Min (insert x (coordinates k ?ps)) \<le> x" for x k
    by (rule Min_le) simp_all
  have hi: "x \<le> Max (insert x (coordinates k ?ps))" for x k
    by (rule Max_ge) simp_all
  from assms(2) show ?thesis
  proof (cases rule: less3E)
    case 1
    then show ?thesis by (simp add: eq lo hi)
  next
    case 2
    then show ?thesis by (simp add: eq lo hi)
  next
    case 3
    then show ?thesis by (simp add: eq lo hi)
  qed
qed

theorem AddImageToExtent_widens_witness:
  "length [5, 5, 5, 5, 5, 5 :: real] = 6 \<and> (1 :: nat) < 3
   \<and> AddImageToExtent example_image Identity4x4 [5, 5, 5, 5, 5, 5] = [0, 10, 0, 20, 0, 5]
   \<and> AddImageToExtent example_image Identity4x4 [5, 5, 5, 5, 5, 5] ! (1 * 2) \<le> [5, 5, 5, 5, 5, 5] ! (1 * 2)
   \<and> [5, 5, 5, 5, 5, 5] ! (1 * 2 + 1) \<le> AddImageToExtent example_image Identity4x4 [5, 5, 5, 5, 5, 5] ! (1 * 2 + 1)"
proof -
  have run: "AddImageToExtent example_image Identity4x4 [5, 5, 5, 5, 5, 5] = [0, 10, 0, 20, 0, 5]"
    by (simp add: AddImageToExtent_def corners_ImagePix_def example_image_def expand_corner_def
        MultiplyPoint_def Identity4x4_def Element_def expand_axis_def upt_rec Let_def)
  have len: "length [5, 5, 5, 5, 5, 5 :: real] = 6" and ax: "(1 :: nat) < 3" by simp_all
  from AddImageToExtent_widens [OF len ax, of example_image Identity4x4] run len ax
  show ?thesis by simp
qed

section \<open>Reading the calibration\<close>

lemma ReadConfiguration_no_calibration:
  assumes "calibration_of toolType config = None"
  shows "ReadConfiguration F toolType parse uninitialised self config =
           (PLUS_FAIL, self\<lparr>Reconstructor := F config (Reconstructor self)\<rparr>)"
  using assms
  by (auto simp: ReadConfiguration_def calibration_of_def Let_def split: option.splits)

lemma ReadConfiguration_calibration:
  assumes "calibration_of toolType config = Some calibration"
  shows "ReadConfiguration F toolType parse uninitialised self config =
     (if fst (GetVectorAttribute parse calibration ''MatrixValue'' 16 uninitialised) = 0
      then (PLUS_FAIL, self\<lparr>Reconstructor := F config (Reconstructor self)\<rparr>)
      else (PLUS_SUCCESS,
            self\<lparr>Reconstructor := F config (Reconstructor self),
                 ImageToToolTransform :=
                   DeepCopy (snd (GetVectorAttribute parse calibration ''MatrixValue'' 16 uninitialised))\<rparr>))"
  using assms
  by (auto simp: ReadConfiguration_def calibration_of_def Let_def
      split: option.splits prod.splits Option.bind_splits)

text \<open>
  What \<^verbatim>\<open>ReadConfiguration\<close> does to the calibration transform. Whenever the chain of
  lookups misses an element (\<^verbatim>\<open>USDataCollection\<close>, \<^verbatim>\<open>Tracker\<close>, the probe \<^verbatim>\<open>Tool\<close>,
  \<^verbatim>\<open>Calibration\<close>) or the \<^verbatim>\<open>Calibration\<close> element has no \<^verbatim>\<open>MatrixValue\<close> attribute,
  the status is \<^verbatim>\<open>PLUS_FAIL\<close>; whenever the status is \<^verbatim>\<open>PLUS_FAIL\<close>,
  \<open>ImageToToolTransform\<close> is what it was; and when the status is \<^verbatim>\<open>PLUS_SUCCESS\<close>, every
  lookup has succeeded and the transform holds the array as the read has left it.
\<close>

lemma ReadConfiguration_failure_keeps_transform:
  "(calibration_of toolType config = None
      \<or> (\<exists>calibration. calibration_of toolType config = Some calibration
            \<and> GetAttribute calibration ''MatrixValue'' = None)
    \<longrightarrow> fst (ReadConfiguration F toolType parse uninitialised self config) = PLUS_FAIL)
   \<and> (fst (ReadConfiguration F toolType parse uninitialised self config) = PLUS_FAIL
    \<longrightarrow> ImageToToolTransform (snd (ReadConfiguration F toolType parse uninitialised self config)) =
          ImageToToolTransform self)
   \<and> (fst (ReadConfiguration F toolType parse uninitialised self config) = PLUS_SUCCESS
    \<longrightarrow> (\<exists>calibration. calibration_of toolType config = Some calibration
          \<and> GetAttribute calibration ''MatrixValue'' \<noteq> None
          \<and> ImageToToolTransform (snd (ReadConfiguration F toolType parse uninitialised self config)) =
              DeepCopy (snd (GetVectorAttribute parse calibration ''MatrixValue'' 16 uninitialised))))"
proof (cases "calibration_of toolType config")
  case None
  then show ?thesis by (simp add: ReadConfiguration_no_calibration)
next
  case (Some calibration)
  show ?thesis
  proof (cases "GetAttribute calibration ''MatrixValue''")
    case None
    then have "fst (GetVectorAttribute parse calibration ''MatrixValue'' 16 uninitialised) = 0"
      by (simp add: GetVectorAttribute_def)
    with Some None show ?thesis by (simp add: ReadConfiguration_calibration)
  next
    case (Some str)
    with \<open>calibration_of toolType config = Some calibration\<close> show ?thesis
      by (simp add: ReadConfiguration_calibration)
  qed
qed

lemma ReadConfiguration_examples:
  "ReadConfiguration (\<lambda>config r. r) ''Probe'' example_parse (replicate 16 0)
      example_reconstructor config_without_tracker = (PLUS_FAIL, example_reconstructor)"
  "ReadConfiguration (\<lambda>config r. r) ''Probe'' example_parse (replicate 16 0)
      example_reconstructor (example_config ''2 0 0 0 0 2 0 0 0 0 2 0 0 0 0 1'') =
     (PLUS_SUCCESS, example_reconstructor\<lparr>ImageToToolTransform := example_calibration\<rparr>)"
  by (simp_all add: ReadConfiguration_def config_without_tracker_def example_config_def
      FindNestedElementWithName_def FindNestedElementWithNameAndAttribute_def GetAttribute_def
      GetVectorAttribute_def example_parse_def example_calibration_def DeepCopy_def upt_rec)

text \<open>
  C10. The claim is that a configuration in which the 16-value \<^verbatim>\<open>MatrixValue\<close>
  attribute is missing ends in a failure status with the calibration transform
  unchanged. The source tests only that \<^verbatim>\<open>GetVectorAttribute\<close> has read some value. For
  the configuration with every element in place and \<^verbatim>\<open>MatrixValue="1 2 3"\<close> the count is
  3, the status is \<^verbatim>\<open>PLUS_SUCCESS\<close>, and the transform is overwritten by the three values
  followed by whatever the entries 3 to 15 of the local array held.
\<close>

theorem short_MatrixValue_is_accepted:
  "ReadConfiguration F ''Probe'' example_parse
      [g0, g1, g2, g3, g4, g5, g6, g7, g8, g9, g10, g11, g12, g13, g14, g15] self
      (example_config ''1 2 3'') =
     (PLUS_SUCCESS,
      self\<lparr>Reconstructor := F (example_config ''1 2 3'') (Reconstructor self),
           ImageToToolTransform :=
             [1, 2, 3, g3, g4, g5, g6, g7, g8, g9, g10, g11, g12, g13, g14, g15]\<rparr>)"
  by (simp add: ReadConfiguration_def example_config_def FindNestedElementWithName_def
      FindNestedElementWithNameAndAttribute_def GetAttribute_def GetVectorAttribute_def
      example_parse_def DeepCopy_def upt_rec)

end
